theory Spec2Isabelle
  imports Main "HOL-Library.Char_ord" "HOL-Library.List_Lexorder" "HOL-Library.Sublist"
begin

section \<open>Strings\<close>

text \<open>
  A JavaScript string is modelled by the bytes of its UTF-8 encoding (\<^typ>\<open>string\<close>), so
  an ASCII character is one \<^typ>\<open>char\<close>. Lone surrogates are outside the model.
\<close>

definition startsWith :: "string \<Rightarrow> string \<Rightarrow> bool" where
  "startsWith s p = (take (length p) s = p)"

definition endsWith :: "string \<Rightarrow> string \<Rightarrow> bool" where
  "endsWith s p = (length p \<le> length s \<and> drop (length s - length p) s = p)"

fun includes_str :: "string \<Rightarrow> string \<Rightarrow> bool" where
  "includes_str [] p = (p = [])"
| "includes_str (c # s) p = (startsWith (c # s) p \<or> includes_str s p)"

text \<open>\<^verbatim>\<open>s.split(sep)\<close> for a one-character separator: never the empty list.\<close>

fun split_on :: "char \<Rightarrow> string \<Rightarrow> string list" where
  "split_on sep [] = [[]]"
| "split_on sep (c # s) =
     (if c = sep then [] # split_on sep s
      else (case split_on sep s of
              [] \<Rightarrow> [[c]]
            | seg # segs \<Rightarrow> (c # seg) # segs))"

subsection \<open>decodeURIComponent\<close>

text \<open>
  The built-in \<^verbatim>\<open>decodeURIComponent\<close> (ECMA-262, Decode with an empty reserved set).
  Every \<^verbatim>\<open>%\<close> must be followed by two hexadecimal digits; an octet with the high bit set
  must start a well-formed UTF-8 sequence whose other octets are escaped too. Anything
  else raises URIError, here \<^const>\<open>None\<close>.
\<close>

definition hexval :: "char \<Rightarrow> nat option" where
  "hexval c =
     (let n = (of_char c :: nat) in
      if 48 \<le> n \<and> n \<le> 57 then Some (n - 48)
      else if 65 \<le> n \<and> n \<le> 70 then Some (n - 55)
      else if 97 \<le> n \<and> n \<le> 102 then Some (n - 87)
      else None)"

datatype token = Lit char | Oct nat

fun pct_tokens :: "string \<Rightarrow> token list option" where
  "pct_tokens [] = Some []"
| "pct_tokens (c # s) =
     (if c = CHR ''%'' then
        (case s of
           h1 # h2 # r \<Rightarrow>
             (case (hexval h1, hexval h2) of
                (Some a, Some b) \<Rightarrow> map_option ((#) (Oct (16 * a + b))) (pct_tokens r)
              | _ \<Rightarrow> None)
         | _ \<Rightarrow> None)
      else map_option ((#) (Lit c)) (pct_tokens s))"

definition cont :: "nat \<Rightarrow> bool" where
  "cont b = (128 \<le> b \<and> b \<le> 191)"

definition utf8_2 :: "nat \<Rightarrow> nat \<Rightarrow> bool" where
  "utf8_2 a b = (194 \<le> a \<and> a \<le> 223 \<and> cont b)"

definition utf8_3 :: "nat \<Rightarrow> nat \<Rightarrow> nat \<Rightarrow> bool" where
  "utf8_3 a b c =
     (224 \<le> a \<and> a \<le> 239 \<and> cont b \<and> cont c \<and>
      (if a = 224 then 160 \<le> b else if a = 237 then b \<le> 159 else True))"

definition utf8_4 :: "nat \<Rightarrow> nat \<Rightarrow> nat \<Rightarrow> nat \<Rightarrow> bool" where
  "utf8_4 a b c d =
     (240 \<le> a \<and> a \<le> 244 \<and> cont b \<and> cont c \<and> cont d \<and>
      (if a = 240 then 144 \<le> b else if a = 244 then b \<le> 143 else True))"

fun utf8_join :: "token list \<Rightarrow> string option" where
  "utf8_join [] = Some []"
| "utf8_join (Lit c # ts) = map_option ((#) c) (utf8_join ts)"
| "utf8_join (Oct a # ts) =
     (if a < 128 then map_option ((#) (char_of a)) (utf8_join ts)
      else if a < 224 then
        (case ts of
           Oct b # r \<Rightarrow>
             if utf8_2 a b then map_option ((@) [char_of a, char_of b]) (utf8_join r)
             else None
         | _ \<Rightarrow> None)
      else if a < 240 then
        (case ts of
           Oct b # Oct c # r \<Rightarrow>
             if utf8_3 a b c
             then map_option ((@) [char_of a, char_of b, char_of c]) (utf8_join r)
             else None
         | _ \<Rightarrow> None)
      else
        (case ts of
           Oct b # Oct c # Oct d # r \<Rightarrow>
             if utf8_4 a b c d
             then map_option ((@) [char_of a, char_of b, char_of c, char_of d]) (utf8_join r)
             else None
         | _ \<Rightarrow> None))"

definition decodeURIComponent :: "string \<Rightarrow> string option" where
  "decodeURIComponent s = (case pct_tokens s of None \<Rightarrow> None | Some ts \<Rightarrow> utf8_join ts)"

text \<open>
  \<^verbatim>\<open>encodeURIComponent\<close>, the inverse the tests of the repository use to build encoded
  pointers: the unreserved characters stay, every other octet becomes \<^verbatim>\<open>%XX\<close>.
\<close>

definition hexdigit :: "nat \<Rightarrow> char" where
  "hexdigit n = (if n < 10 then char_of (48 + n) else char_of (55 + n))"

definition unreserved :: "char \<Rightarrow> bool" where
  "unreserved c =
     (let n = (of_char c :: nat) in
      (48 \<le> n \<and> n \<le> 57) \<or> (65 \<le> n \<and> n \<le> 90) \<or> (97 \<le> n \<and> n \<le> 122) \<or>
      c \<in> set ''-_.!~*'()'')"

fun encodeURIComponent :: "string \<Rightarrow> string" where
  "encodeURIComponent [] = []"
| "encodeURIComponent (c # s) =
     (if unreserved c then c # encodeURIComponent s
      else CHR ''%'' # hexdigit (of_char c div 16) # hexdigit (of_char c mod 16)
           # encodeURIComponent s)"

subsection \<open>helpers.ts: normalizeInternalRef, jsonPointerDecode\<close>

definition normalizeInternalRef :: "string \<Rightarrow> string" where
  "normalizeInternalRef ref =
     (if \<not> startsWith ref ''#'' \<or> \<not> includes_str ref ''%'' then ref
      else (case decodeURIComponent (drop 1 ref) of
              Some d \<Rightarrow> ''#'' @ d
            | None \<Rightarrow> ref))"

fun replace_tilde1 :: "string \<Rightarrow> string" where
  "replace_tilde1 (a # b # r) =
     (if a = CHR ''~'' \<and> b = CHR ''1'' then CHR ''/'' # replace_tilde1 r
      else a # replace_tilde1 (b # r))"
| "replace_tilde1 s = s"

fun replace_tilde0 :: "string \<Rightarrow> string" where
  "replace_tilde0 (a # b # r) =
     (if a = CHR ''~'' \<and> b = CHR ''0'' then CHR ''~'' # replace_tilde0 r
      else a # replace_tilde0 (b # r))"
| "replace_tilde0 s = s"

definition jsonPointerDecode :: "string \<Rightarrow> string option" where
  "jsonPointerDecode segment = decodeURIComponent (replace_tilde0 (replace_tilde1 segment))"


section \<open>JSON values and JavaScript objects\<close>

text \<open>
  The document tree. Numbers are integers, printed in decimal. An object is the list of
  its own properties in enumeration order (array-index keys first, ascending, then the
  other keys in insertion order); \<^verbatim>\<open>undefined\<close> is \<^const>\<open>None\<close>. Properties inherited from
  \<^verbatim>\<open>Object.prototype\<close> are outside the model: keys are assumed not to collide with them.
  A value read back by \<^verbatim>\<open>JSON.parse(JSON.stringify(v))\<close> is \<open>v\<close> itself.
\<close>

datatype json =
    JNull
  | JBool bool
  | JNum int
  | JStr string
  | JArr "json list"
  | JObj "(string \<times> json) list"

definition truthy :: "json \<Rightarrow> bool" where
  "truthy v = (case v of JNull \<Rightarrow> False | JBool b \<Rightarrow> b | JNum n \<Rightarrow> n \<noteq> 0
               | JStr s \<Rightarrow> s \<noteq> [] | _ \<Rightarrow> True)"

definition truthy_opt :: "json option \<Rightarrow> bool" where
  "truthy_opt v = (case v of None \<Rightarrow> False | Some w \<Rightarrow> truthy w)"

definition is_object :: "json \<Rightarrow> bool" where
  "is_object v = (case v of JObj _ \<Rightarrow> True | JArr _ \<Rightarrow> True | _ \<Rightarrow> False)"

definition is_array :: "json \<Rightarrow> bool" where
  "is_array v = (case v of JArr _ \<Rightarrow> True | _ \<Rightarrow> False)"

definition digit :: "nat \<Rightarrow> char" where
  "digit n = char_of (48 + n)"

fun dec_nat :: "nat \<Rightarrow> string" where
  "dec_nat n = (if n < 10 then [digit n] else dec_nat (n div 10) @ [digit (n mod 10)])"

definition dec_int :: "int \<Rightarrow> string" where
  "dec_int i = (if i < 0 then CHR ''-'' # dec_nat (nat (- i)) else dec_nat (nat i))"

definition is_digit :: "char \<Rightarrow> bool" where
  "is_digit c = (48 \<le> (of_char c :: nat) \<and> (of_char c :: nat) \<le> 57)"

text \<open>
  An array index is the canonical decimal numeral of an integer below \<open>2\<^sup>3\<^sup>2 - 1\<close>; two
  of them compare as numbers when compared by length first.
\<close>

definition is_array_index :: "string \<Rightarrow> bool" where
  "is_array_index k =
     (k \<noteq> [] \<and> list_all is_digit k \<and> (k = ''0'' \<or> hd k \<noteq> CHR ''0'') \<and>
      (length k < 10 \<or> (length k = 10 \<and> k \<le> ''4294967294'')))"

definition index_less :: "string \<Rightarrow> string \<Rightarrow> bool" where
  "index_less a b = (length a < length b \<or> (length a = length b \<and> a < b))"

fun ins_index :: "string \<Rightarrow> json \<Rightarrow> (string \<times> json) list \<Rightarrow> (string \<times> json) list" where
  "ins_index k v [] = [(k, v)]"
| "ins_index k v ((k', v') # r) =
     (if is_array_index k' \<and> index_less k' k then (k', v') # ins_index k v r
      else (k, v) # (k', v') # r)"

text \<open>\<^verbatim>\<open>obj[k] = v\<close>\<close>

definition obj_set :: "(string \<times> json) list \<Rightarrow> string \<Rightarrow> json \<Rightarrow> (string \<times> json) list" where
  "obj_set kvs k v =
     (if k \<in> fst ` set kvs then map (\<lambda>(k', v'). if k' = k then (k', v) else (k', v')) kvs
      else if is_array_index k then ins_index k v kvs
      else kvs @ [(k, v)])"

text \<open>\<^verbatim>\<open>Object.entries\<close>: of an object, an array, or (ASCII) string.\<close>

definition entries :: "json \<Rightarrow> (string \<times> json) list" where
  "entries v =
     (case v of
        JObj kvs \<Rightarrow> kvs
      | JArr xs \<Rightarrow> zip (map dec_nat [0..<length xs]) xs
      | JStr s \<Rightarrow> zip (map dec_nat [0..<length s]) (map (\<lambda>c. JStr [c]) s)
      | _ \<Rightarrow> [])"

text \<open>\<^verbatim>\<open>cur[key]\<close> on any value; an array has its elements and \<^verbatim>\<open>length\<close>.\<close>

definition get_prop :: "json \<Rightarrow> string \<Rightarrow> json option" where
  "get_prop v k =
     (case v of
        JObj kvs \<Rightarrow> map_of kvs k
      | JArr xs \<Rightarrow>
          (if k = ''length'' then Some (JNum (int (length xs)))
           else map_of (zip (map dec_nat [0..<length xs]) xs) k)
      | _ \<Rightarrow> None)"

text \<open>\<^verbatim>\<open>typeof obj['$ref'] === 'string'\<close>, giving the string.\<close>

definition str_prop :: "json \<Rightarrow> string \<Rightarrow> string option" where
  "str_prop v k = (case get_prop v k of Some (JStr s) \<Rightarrow> Some s | _ \<Rightarrow> None)"

section \<open>helpers.ts\<close>

datatype error =
    URIError
  | TypeError
  | Error string

definition resolve_step :: "json option \<Rightarrow> string \<Rightarrow> error + json option" where
  "resolve_step cur seg =
     (case cur of
        None \<Rightarrow> Inr None
      | Some c \<Rightarrow>
          if \<not> is_object c then Inr None
          else (case jsonPointerDecode seg of
                  None \<Rightarrow> Inl URIError
                | Some k \<Rightarrow> Inr (get_prop c k)))"

text \<open>
  The loop of resolveInternalRef over the segments. Once \<open>cur\<close> is not an object the
  source returns \<^verbatim>\<open>undefined\<close> at the next segment, before decoding it.
\<close>

fun resolve_segs :: "json option \<Rightarrow> string list \<Rightarrow> error + json option" where
  "resolve_segs cur [] = Inr cur"
| "resolve_segs cur (seg # segs) =
     (case cur of
        None \<Rightarrow> Inr None
      | Some c \<Rightarrow>
          if \<not> is_object c then Inr None
          else (case jsonPointerDecode seg of
                  None \<Rightarrow> Inl URIError
                | Some k \<Rightarrow> resolve_segs (get_prop c k) segs))"

definition resolveInternalRef :: "json \<Rightarrow> string \<Rightarrow> error + json option" where
  "resolveInternalRef root ref =
     (if \<not> startsWith ref ''#/'' then Inr None
      else resolve_segs (Some root) (split_on (CHR ''/'') (drop 2 ref)))"

subsection \<open>Canonical signatures\<close>

fun sortKeys :: "json \<Rightarrow> json" where
  "sortKeys (JArr xs) = JArr (map sortKeys xs)"
| "sortKeys (JObj kvs) =
     (let sorted = map (\<lambda>(k, v). (k, sortKeys v)) kvs
      in JObj (foldl (\<lambda>acc key. obj_set acc key (the (map_of sorted key))) [] (sort (map fst kvs))))"
| "sortKeys v = v"

text \<open>\<^verbatim>\<open>JSON.stringify\<close> without indentation.\<close>

definition hex4 :: "nat \<Rightarrow> string" where
  "hex4 n = [CHR ''0'', CHR ''0'',
             (if n div 16 < 10 then char_of (48 + n div 16) else char_of (87 + n div 16)),
             (if n mod 16 < 10 then char_of (48 + n mod 16) else char_of (87 + n mod 16))]"

definition quote_char :: "char \<Rightarrow> string" where
  "quote_char c =
     (if c = CHR ''\"'' then [CHR 0x5C, CHR ''\"'']
      else if c = CHR 0x5C then [CHR 0x5C, CHR 0x5C]
      else if c = CHR 0x08 then [CHR 0x5C, CHR ''b'']
      else if c = CHR 0x09 then [CHR 0x5C, CHR ''t'']
      else if c = CHR 0x0A then [CHR 0x5C, CHR ''n'']
      else if c = CHR 0x0C then [CHR 0x5C, CHR ''f'']
      else if c = CHR 0x0D then [CHR 0x5C, CHR ''r'']
      else if (of_char c :: nat) < 32 then [CHR 0x5C, CHR ''u''] @ hex4 (of_char c)
      else [c])"

definition quote :: "string \<Rightarrow> string" where
  "quote s = CHR ''\"'' # concat (map quote_char s) @ [CHR ''\"'']"

fun join :: "string \<Rightarrow> string list \<Rightarrow> string" where
  "join sep [] = []"
| "join sep [x] = x"
| "join sep (x # y # r) = x @ sep @ join sep (y # r)"

fun stringify :: "json \<Rightarrow> string" where
  "stringify JNull = ''null''"
| "stringify (JBool b) = (if b then ''true'' else ''false'')"
| "stringify (JNum n) = dec_int n"
| "stringify (JStr s) = quote s"
| "stringify (JArr xs) = ''['' @ join '','' (map stringify xs) @ '']''"
| "stringify (JObj kvs) =
     ''{'' @ join '','' (map (\<lambda>(k, v). quote k @ '':'' @ stringify v) kvs) @ ''}''"

definition canonicalStringify :: "json \<Rightarrow> string" where
  "canonicalStringify obj = stringify (sortKeys obj)"

fun stripMetadata :: "json \<Rightarrow> json" where
  "stripMetadata (JArr xs) = JArr (map stripMetadata xs)"
| "stripMetadata (JObj kvs) =
     JObj (foldl (\<lambda>result (key, val). obj_set result key val) []
             (map (\<lambda>(k, v). (k, stripMetadata v))
                (filter (\<lambda>(k, v). \<not> (k = ''description'' \<or> k = ''title'')) kvs)))"
| "stripMetadata v = v"

definition structuralStringify :: "json \<Rightarrow> string" where
  "structuralStringify obj = stringify (sortKeys (stripMetadata obj))"

subsection \<open>Tree walks of helpers.ts\<close>

text \<open>
  The walks below keep an explicit stack and a set of visited objects in the source. On
  a tree (no object reachable twice) the visited set never fires and the order of the
  stack does not matter for what is computed, so each walk is a recursion on the value.
\<close>

fun rewriteInternalRefs :: "json \<Rightarrow> json" where
  "rewriteInternalRefs (JArr xs) = JArr (map rewriteInternalRefs xs)"
| "rewriteInternalRefs (JObj kvs) =
     JObj (map (\<lambda>(k, v). (k, if k = ''$ref''
                               then (case v of JStr r \<Rightarrow> JStr (normalizeInternalRef r)
                                     | _ \<Rightarrow> rewriteInternalRefs v)
                               else rewriteInternalRefs v)) kvs)"
| "rewriteInternalRefs v = v"

text \<open>
  \<^verbatim>\<open>ref.split(sep).pop()\<close>: the piece after the last match of \<open>sep\<close>, matches taken from
  the left without overlap. \<open>skip\<close> counts the characters of a match still to pass.
\<close>

fun last_piece :: "string \<Rightarrow> nat \<Rightarrow> string \<Rightarrow> string \<Rightarrow> string" where
  "last_piece sep skip acc [] = rev acc"
| "last_piece sep skip acc (c # s) =
     (if 0 < skip then last_piece sep (skip - 1) acc s
      else if sep \<noteq> [] \<and> startsWith (c # s) sep then last_piece sep (length sep - 1) [] s
      else last_piece sep 0 (c # acc) s)"

definition external_ref_to_local :: "string \<Rightarrow> string" where
  "external_ref_to_local ref =
     (if includes_str ref ''#/components/schemas/'' \<and>
         (includes_str ref ''.yaml'' \<or> includes_str ref ''.yml'')
      then (let name = last_piece ''#/components/schemas/'' 0 [] ref
            in if name \<noteq> [] then ''#/components/schemas/'' @ name else ref)
      else ref)"

fun rewriteExternalRefsToLocal :: "json \<Rightarrow> json" where
  "rewriteExternalRefsToLocal (JArr xs) = JArr (map rewriteExternalRefsToLocal xs)"
| "rewriteExternalRefsToLocal (JObj kvs) =
     JObj (map (\<lambda>(k, v). (k, if k = ''$ref''
                               then (case v of JStr r \<Rightarrow> JStr (external_ref_to_local r) | _ \<Rightarrow> v)
                               else rewriteExternalRefsToLocal v)) kvs)"
| "rewriteExternalRefsToLocal v = v"

definition is_path_local_like :: "json \<Rightarrow> bool" where
  "is_path_local_like obj =
     (case str_prop obj ''$ref'' of
        Some r \<Rightarrow> startsWith r ''#/paths/'' \<and>
                  (endsWith r ''/properties/$like'' \<or> endsWith r ''/properties/%24like'')
      | None \<Rightarrow> False)"

fun findPathLocalLikeRefs :: "json \<Rightarrow> nat" where
  "findPathLocalLikeRefs (JArr xs) = sum_list (map findPathLocalLikeRefs xs)"
| "findPathLocalLikeRefs (JObj kvs) =
     (if is_path_local_like (JObj kvs) then 1 else 0)
     + sum_list (map (\<lambda>(k, v). findPathLocalLikeRefs v) kvs)"
| "findPathLocalLikeRefs v = 0"

subsection \<open>Directory listing and hashing\<close>

text \<open>
  A directory is the list of its entries in the order \<^verbatim>\<open>readdirSync\<close> returns them, which
  the operating system chooses. \<open>Other\<close> is an entry that is neither file nor directory.
  Paths are POSIX paths; the root directory is given without a trailing slash.
\<close>

datatype fsnode =
    File string
  | Dir "(string \<times> fsnode) list"
  | Other

definition path_join :: "string \<Rightarrow> string \<Rightarrow> string" where
  "path_join dir name = dir @ ''/'' @ name"

definition path_relative :: "string \<Rightarrow> string \<Rightarrow> string" where
  "path_relative root p = drop (Suc (length root)) p"

definition subdirs :: "string \<Rightarrow> (string \<times> fsnode) list \<Rightarrow> (string \<times> (string \<times> fsnode) list) list" where
  "subdirs cur es =
     concat (map (\<lambda>(name, e). case e of Dir es' \<Rightarrow> [(path_join cur name, es')] | _ \<Rightarrow> []) es)"

definition files_in :: "string \<Rightarrow> (string \<times> fsnode) list \<Rightarrow> (string \<times> string) list" where
  "files_in cur es =
     concat (map (\<lambda>(name, e). case e of File c \<Rightarrow> [(path_join cur name, c)] | _ \<Rightarrow> []) es)"

fun fs_size :: "fsnode \<Rightarrow> nat" where
  "fs_size (Dir es) = Suc (sum_list (map (\<lambda>(n, e). fs_size e) es))"
| "fs_size e = 1"

definition dirs_size :: "(string \<times> (string \<times> fsnode) list) list \<Rightarrow> nat" where
  "dirs_size stack = sum_list (map (\<lambda>(p, es). fs_size (Dir es)) stack)"

text \<open>
  The loop of listFilesRecursive. The head of \<open>stack\<close> is the top of the source's stack;
  \<open>out\<close> collects each file path together with the content \<^verbatim>\<open>readFileSync\<close> finds there.
\<close>

function list_loop ::
  "(string \<times> (string \<times> fsnode) list) list \<Rightarrow> (string \<times> string) list \<Rightarrow> (string \<times> string) list" where
  "list_loop [] out = out"
| "list_loop ((cur, es) # stack) out =
     list_loop (rev (subdirs cur es) @ stack) (out @ files_in cur es)"
  by pat_completeness auto


lemma dirs_size_subdirs: "dirs_size (subdirs cur es) \<le> sum_list (map (\<lambda>(n, e). fs_size e) es)"
  by (induction es) (auto simp: subdirs_def dirs_size_def split: fsnode.splits)

lemma dirs_size_append: "dirs_size (a @ b) = dirs_size a + dirs_size b"
  by (simp add: dirs_size_def)

lemma dirs_size_rev: "dirs_size (rev a) = dirs_size a"
  by (induction a) (auto simp: dirs_size_def)

termination list_loop
proof (relation "measure (\<lambda>(stack, out). dirs_size stack)")
  show "wf (measure (\<lambda>(stack, out). dirs_size stack))" by simp
next
  fix cur :: string and es :: "(string \<times> fsnode) list"
    and stack :: "(string \<times> (string \<times> fsnode) list) list" and out :: "(string \<times> string) list"
  have "dirs_size (rev (subdirs cur es) @ stack) < dirs_size ((cur, es) # stack)"
    using dirs_size_subdirs [of cur es]
    by (simp add: dirs_size_append dirs_size_rev) (simp add: dirs_size_def)
  then show "((rev (subdirs cur es) @ stack, out @ files_in cur es), (cur, es) # stack, out)
             \<in> measure (\<lambda>(stack, out). dirs_size stack)"
    by simp
qed

definition walk_files :: "string \<Rightarrow> fsnode \<Rightarrow> (string \<times> string) list" where
  "walk_files dir tree = (case tree of Dir es \<Rightarrow> list_loop [(dir, es)] [] | _ \<Rightarrow> [])"

definition listFilesRecursive :: "string \<Rightarrow> fsnode \<Rightarrow> string list" where
  "listFilesRecursive dir tree = sort (map fst (walk_files dir tree))"

definition readFileSync :: "string \<Rightarrow> fsnode \<Rightarrow> string \<Rightarrow> string" where
  "readFileSync dir tree p = (case map_of (walk_files dir tree) p of Some c \<Rightarrow> c | None \<Rightarrow> [])"

text \<open>
  \<open>sha256\<close> stands for the digest of the hash object: it maps the bytes fed by the calls
  of \<^verbatim>\<open>update\<close>, in order, to the hexadecimal digest.
\<close>

definition hashDirectoryTree :: "(string \<Rightarrow> string) \<Rightarrow> string \<Rightarrow> fsnode \<Rightarrow> string" where
  "hashDirectoryTree sha256 rootDir tree =
     ''sha256:'' @ sha256 (concat (map (\<lambda>p. path_relative rootDir p @ readFileSync rootDir tree p)
                                    (listFilesRecursive rootDir tree)))"

text \<open>The directory as the pairs of relative path and content of its files.\<close>

definition rel_files :: "string \<Rightarrow> fsnode \<Rightarrow> (string \<times> string) list" where
  "rel_files dir tree = map (\<lambda>(p, c). (path_relative dir p, c)) (walk_files dir tree)"

text \<open>The bytes hashDirectoryTree feeds to the hash, from the relative listing.\<close>

definition fed_bytes :: "(string \<times> string) list \<Rightarrow> string" where
  "fed_bytes rs = concat (map (\<lambda>x. x @ (case map_of rs x of Some c \<Rightarrow> c | None \<Rightarrow> []))
                     (sort (map fst rs)))"


section \<open>bundle.ts\<close>

subsection \<open>Outcomes\<close>

text \<open>
  A computation either returns, throws, or does not finish within its fuel
  (\<^const>\<open>None\<close>). Fuel bounds the depth of nested calls.
\<close>

type_synonym 'a res = "(error + 'a) option"

definition ok :: "'a \<Rightarrow> 'a res" where
  "ok x = Some (Inr x)"

definition throw :: "error \<Rightarrow> 'a res" where
  "throw e = Some (Inl e)"

definition bind_res :: "'a res \<Rightarrow> ('a \<Rightarrow> 'b res) \<Rightarrow> 'b res" where
  "bind_res m f = (case m of None \<Rightarrow> None | Some (Inl e) \<Rightarrow> Some (Inl e) | Some (Inr x) \<Rightarrow> f x)"

fun fold_res :: "('a \<Rightarrow> 's \<Rightarrow> 's res) \<Rightarrow> 'a list \<Rightarrow> 's \<Rightarrow> 's res" where
  "fold_res f [] s = ok s"
| "fold_res f (x # xs) s = bind_res (f x s) (fold_res f xs)"

subsection \<open>The store of the normalizer\<close>

text \<open>
  safeNormalize mutates objects in place and tells them apart by identity. Two trees are
  alive while it runs: the document (\<open>Live\<close>) and preNormSnapshot (\<open>Snap\<close>), a deep copy
  taken just before. An object is identified by the tree it was created in and its path
  of keys there; both trees start from the same value \<open>doc0\<close>. The only mutations are
  \<^verbatim>\<open>obj['$ref'] = r\<close> on an object that has a \<^verbatim>\<open>$ref\<close> already (\<open>RefSet\<close>) and deleting every
  key before setting \<^verbatim>\<open>$ref\<close> (\<open>Cleared\<close>); an object is mutated at most once, while it is
  being visited. An object detached from its tree by the clearing of an ancestor keeps
  its identity and its content.
\<close>

datatype tree_id = Live | Snap

type_synonym node_id = "tree_id \<times> string list"

datatype mutation = RefSet string | Cleared string

record nstate =
  muts :: "(node_id \<times> mutation) list"
  normSeen :: "node_id list"

fun get_path :: "json \<Rightarrow> string list \<Rightarrow> json option" where
  "get_path v [] = Some v"
| "get_path v (k # ks) = (case get_prop v k of None \<Rightarrow> None | Some c \<Rightarrow> get_path c ks)"

text \<open>The present content of the object created at path \<open>p\<close> of tree \<open>t\<close> with value \<open>v\<close>.\<close>

fun view :: "(node_id \<Rightarrow> mutation option) \<Rightarrow> tree_id \<Rightarrow> string list \<Rightarrow> json \<Rightarrow> json"
  and view_items :: "(node_id \<Rightarrow> mutation option) \<Rightarrow> tree_id \<Rightarrow> string list \<Rightarrow> nat \<Rightarrow> json list \<Rightarrow> json list"
  and view_props :: "(node_id \<Rightarrow> mutation option) \<Rightarrow> tree_id \<Rightarrow> string list \<Rightarrow> (string \<times> json) list \<Rightarrow> (string \<times> json) list"
where
  "view m t p (JObj kvs) =
     (case m (t, p) of
        Some (Cleared r) \<Rightarrow> JObj [(''$ref'', JStr r)]
      | Some (RefSet r) \<Rightarrow> JObj (obj_set (view_props m t p kvs) ''$ref'' (JStr r))
      | None \<Rightarrow> JObj (view_props m t p kvs))"
| "view m t p (JArr xs) = JArr (view_items m t p 0 xs)"
| "view m t p JNull = JNull"
| "view m t p (JBool b) = JBool b"
| "view m t p (JNum n) = JNum n"
| "view m t p (JStr s) = JStr s"
| "view_items m t p i [] = []"
| "view_items m t p i (x # xs) = view m t (p @ [dec_nat i]) x # view_items m t p (Suc i) xs"
| "view_props m t p [] = []"
| "view_props m t p ((k, v) # kvs) = (k, view m t (p @ [k]) v) # view_props m t p kvs"

record nctx =
  doc0 :: json
  componentNames :: "string list"
  manualOverrides :: "(string \<times> string) list"
  schemaSignatureMap :: "(string \<times> string) list"

definition node_now :: "nctx \<Rightarrow> nstate \<Rightarrow> node_id \<Rightarrow> json option" where
  "node_now ctx st n = map_option (view (map_of (muts st)) (fst n) (snd n)) (get_path (doc0 ctx) (snd n))"

definition schemas_id :: node_id where
  "schemas_id = (Live, [''components'', ''schemas''])"

text \<open>\<^verbatim>\<open>schemas[name]\<close>, read from the live schemas object as it is now.\<close>

definition schemas_prop :: "nctx \<Rightarrow> nstate \<Rightarrow> string \<Rightarrow> json option" where
  "schemas_prop ctx st name = (case node_now ctx st schemas_id of None \<Rightarrow> None | Some s \<Rightarrow> get_prop s name)"

text \<open>\<^verbatim>\<open>componentValues.has(root)\<close> for an object \<open>root\<close>.\<close>

definition is_component :: "nctx \<Rightarrow> node_id \<Rightarrow> bool" where
  "is_component ctx n =
     (fst n = Live \<and> (\<exists>name \<in> set (componentNames ctx). snd n = [''components'', ''schemas'', name]))"

definition set_mut :: "node_id \<Rightarrow> mutation \<Rightarrow> nstate \<Rightarrow> nstate" where
  "set_mut n m st = st\<lparr>muts := (n, m) # muts st\<rparr>"

text \<open>The objects \<^verbatim>\<open>Object.values(obj)\<close> yields, by identity; other values return at once.\<close>

definition children :: "node_id \<Rightarrow> json \<Rightarrow> node_id list" where
  "children n root = map (\<lambda>(k, v). (fst n, snd n @ [k])) (entries root)"

text \<open>\<^verbatim>\<open>Map.get\<close> on a map filled by \<^verbatim>\<open>Map.set\<close> in list order: the last entry wins.\<close>

definition map_get :: "(string \<times> string) list \<Rightarrow> string \<Rightarrow> string option" where
  "map_get m k = map_of (rev m) k"

text \<open>\<^verbatim>\<open>String(v)\<close>, as a property key or inside a template literal.\<close>

fun js_string :: "json \<Rightarrow> string" where
  "js_string JNull = ''null''"
| "js_string (JBool b) = (if b then ''true'' else ''false'')"
| "js_string (JNum n) = dec_int n"
| "js_string (JStr s) = s"
| "js_string (JArr xs) = join '','' (map (\<lambda>x. if x = JNull then [] else js_string x) xs)"
| "js_string (JObj kvs) = ''[object Object]''"

definition component_ref :: "string \<Rightarrow> string" where
  "component_ref name = ''#/components/schemas/'' @ name"

definition like_shape :: "nctx \<Rightarrow> nstate \<Rightarrow> json \<Rightarrow> bool" where
  "like_shape ctx st obj =
     (case str_prop obj ''$ref'' of
        None \<Rightarrow> False
      | Some rawRef \<Rightarrow>
          (let normalized = normalizeInternalRef rawRef
           in normalized \<noteq> [] \<and> startsWith normalized ''#/paths/'' \<and>
              endsWith normalized ''/properties/$like'' \<and>
              truthy_opt (schemas_prop ctx st ''LikeFilter'')))"

text \<open>The decoded keys of a pointer that resolved: the identity of the object found.\<close>

definition pointer_path :: "string \<Rightarrow> string list" where
  "pointer_path ref =
     map (\<lambda>seg. case jsonPointerDecode seg of Some k \<Rightarrow> k | None \<Rightarrow> [])
         (split_on (CHR ''/'') (drop 2 ref))"

subsection \<open>Step 3: safeNormalize\<close>

text \<open>
  The decision for a transient pointer, once its target has resolved to an object
  \<open>rid\<close> of the snapshot and \<^verbatim>\<open>safeNormalize(resolved)\<close> has returned: the new pointer,
  if one of the three rules matches.
\<close>

definition or_else :: "'a option \<Rightarrow> 'a option \<Rightarrow> 'a option" where
  "or_else a b = (case a of Some x \<Rightarrow> Some x | None \<Rightarrow> b)"

definition adopt_ref :: "json \<Rightarrow> string option" where
  "adopt_ref resolved =
     (case str_prop resolved ''$ref'' of
        Some r \<Rightarrow> if startsWith r ''#/components/schemas/'' then Some r else None
      | None \<Rightarrow> None)"

definition override_ref :: "nctx \<Rightarrow> string \<Rightarrow> string option" where
  "override_ref ctx ref =
     (case map_of (manualOverrides ctx) ref of
        Some name \<Rightarrow> if name \<noteq> [] then Some (component_ref name) else None
      | None \<Rightarrow> None)"

definition signature_ref :: "nctx \<Rightarrow> json \<Rightarrow> string option" where
  "signature_ref ctx v =
     (case map_get (schemaSignatureMap ctx) (canonicalStringify v) of
        Some matchingName \<Rightarrow> if matchingName \<noteq> [] then Some (component_ref matchingName) else None
      | None \<Rightarrow> None)"

definition rewrite_target :: "nctx \<Rightarrow> nstate \<Rightarrow> string \<Rightarrow> node_id \<Rightarrow> string option" where
  "rewrite_target ctx st ref rid =
     (case node_now ctx st rid of
        None \<Rightarrow> None
      | Some resolved \<Rightarrow>
          or_else (adopt_ref resolved) (or_else (override_ref ctx ref) (signature_ref ctx resolved)))"

text \<open>
  The block ``Rewrite path-local refs to component refs''. \<open>norm\<close> is safeNormalize
  itself, for the call on the resolved object. The flag tells whether the source
  returned from safeNormalize inside the block.
\<close>

definition rewrite_path_local ::
  "(node_id \<Rightarrow> nstate \<Rightarrow> nstate res) \<Rightarrow> nctx \<Rightarrow> node_id \<Rightarrow> json \<Rightarrow> nstate \<Rightarrow> (bool \<times> nstate) res" where
  "rewrite_path_local norm ctx n obj st =
     (case str_prop obj ''$ref'' of
        None \<Rightarrow> ok (False, st)
      | Some ref \<Rightarrow>
          if \<not> startsWith ref ''#/paths/'' then ok (False, st)
          else (case node_now ctx st (Snap, []) of
                  None \<Rightarrow> ok (False, st)
                | Some snapshot \<Rightarrow>
                    (case resolveInternalRef snapshot ref of
                       Inl e \<Rightarrow> throw e
                     | Inr None \<Rightarrow> ok (False, st)
                     | Inr (Some resolved) \<Rightarrow>
                         if \<not> is_object resolved then ok (False, st)
                         else bind_res (norm (Snap, pointer_path ref) st)
                                (\<lambda>st'. case rewrite_target ctx st' ref (Snap, pointer_path ref) of
                                         Some r \<Rightarrow> ok (True, set_mut n (RefSet r) st')
                                       | None \<Rightarrow> ok (False, st')))))"

text \<open>
  The blocks ``Inline dedup'' and ``Rewrite x-semantic-type extension'', on the object
  \<open>obj\<close> as it is once its children are normalized.
\<close>

definition inline_dedup :: "nctx \<Rightarrow> node_id \<Rightarrow> json \<Rightarrow> nstate \<Rightarrow> nstate" where
  "inline_dedup ctx n obj st =
     (if truthy_opt (get_prop obj ''$ref'') then st
      else (case signature_ref ctx obj of
              Some r \<Rightarrow> set_mut n (Cleared r) st
            | None \<Rightarrow>
                (case get_prop obj ''x-semantic-type'' of
                   None \<Rightarrow> st
                 | Some target \<Rightarrow>
                     if truthy target \<and> truthy_opt (schemas_prop ctx st (js_string target))
                     then set_mut n (Cleared (component_ref (js_string target))) st
                     else st)))"

fun safeNormalize :: "nat \<Rightarrow> nctx \<Rightarrow> node_id \<Rightarrow> nstate \<Rightarrow> nstate res" where
  "safeNormalize 0 ctx n st = None"
| "safeNormalize (Suc fuel) ctx n st =
     (case node_now ctx st n of
        None \<Rightarrow> ok st
      | Some root \<Rightarrow>
          if \<not> is_object root then ok st
          else if n \<in> set (normSeen st) then ok st
          else
            (let st1 = st\<lparr>normSeen := n # normSeen st\<rparr> in
             if like_shape ctx st1 root
             then ok (set_mut n (RefSet ''#/components/schemas/LikeFilter'') st1)
             else if is_component ctx n
             then fold_res (safeNormalize fuel ctx) (children n root) st1
             else if is_array root
             then fold_res (safeNormalize fuel ctx) (children n root) st1
             else
               bind_res (fold_res (safeNormalize fuel ctx) (children n root) st1)
                 (\<lambda>st2. bind_res (rewrite_path_local (safeNormalize fuel ctx) ctx n root st2)
                   (\<lambda>(returned, st3).
                      if returned then ok st3
                      else (case node_now ctx st3 n of
                              None \<Rightarrow> ok st3
                            | Some obj \<Rightarrow> ok (inline_dedup ctx n obj st3))))))"

subsection \<open>Step 2: schemas added from the other files\<close>

definition ensureComponents :: "json \<Rightarrow> error + json" where
  "ensureComponents doc =
     (case doc of
        JObj kvs \<Rightarrow>
          (let kvs1 = (if truthy_opt (map_of kvs ''components'') then kvs
                       else obj_set kvs ''components'' (JObj []))
           in case map_of kvs1 ''components'' of
                Some (JObj cs) \<Rightarrow>
                  (if truthy_opt (map_of cs ''schemas'') then
                     (case map_of cs ''schemas'' of
                        Some (JObj ss) \<Rightarrow> Inr (JObj kvs1)
                      | _ \<Rightarrow> Inl TypeError)
                   else Inr (JObj (obj_set kvs1 ''components'' (JObj (obj_set cs ''schemas'' (JObj []))))))
              | _ \<Rightarrow> Inl TypeError)
      | _ \<Rightarrow> Inl TypeError)"

text \<open>
  The model covers documents whose \<^verbatim>\<open>components\<close> and \<^verbatim>\<open>components.schemas\<close>, when truthy,
  are objects; on a primitive the assignment of ensureComponents throws TypeError in
  strict mode, and an array there is outside the model (reported as TypeError too).
\<close>

definition is_yaml :: "string \<Rightarrow> bool" where
  "is_yaml file = (endsWith file ''.yaml'' \<or> endsWith file ''.yml'')"

definition doc_schemas :: "json \<Rightarrow> json option" where
  "doc_schemas doc =
     (case get_prop doc ''components'' of
        None \<Rightarrow> None
      | Some docComponents \<Rightarrow> get_prop docComponents ''schemas'')"

definition add_schema :: "(string \<times> json) list \<times> nat \<Rightarrow> string \<times> json \<Rightarrow> (string \<times> json) list \<times> nat" where
  "add_schema acc e =
     (case (acc, e) of
        ((schemas, count), (name, schema)) \<Rightarrow>
          if \<not> truthy_opt (map_of schemas name)
          then (obj_set schemas name (rewriteExternalRefsToLocal schema), Suc count)
          else (schemas, count))"

text \<open>
  One file of the loop of step 2; \<open>parsed\<close> is what \<^verbatim>\<open>parseYaml\<close> returned, \<^const>\<open>None\<close> when
  reading or parsing threw.
\<close>

definition augment_file :: "(string \<times> json) list \<times> nat \<Rightarrow> string \<times> json option \<Rightarrow> (string \<times> json) list \<times> nat" where
  "augment_file acc f =
     (case f of
        (file, parsed) \<Rightarrow>
          if \<not> is_yaml file then acc
          else (case parsed of
                  None \<Rightarrow> acc
                | Some doc \<Rightarrow>
                    (case doc_schemas doc of
                       None \<Rightarrow> acc
                     | Some docSchemas \<Rightarrow>
                         if \<not> truthy docSchemas then acc
                         else foldl add_schema acc (entries docSchemas))))"

subsection \<open>Step 3b: promoteInlineSchemas\<close>

definition is_space :: "char \<Rightarrow> bool" where
  "is_space c = (c \<in> set [CHR 0x09, CHR 0x0A, CHR 0x0B, CHR 0x0C, CHR 0x0D, CHR '' ''])"

definition lower :: "char \<Rightarrow> char" where
  "lower c = (if 65 \<le> (of_char c :: nat) \<and> (of_char c :: nat) \<le> 90 then char_of (of_char c + 32 :: nat) else c)"

text \<open>\<^verbatim>\<open>/exact\s*match/i.test(title)\<close>, on ASCII white space and letters.\<close>

fun exact_match_here :: "string \<Rightarrow> bool" where
  "exact_match_here s =
     (startsWith (map lower s) ''exact'' \<and>
      startsWith (map lower (dropWhile is_space (drop 5 s))) ''match'')"

fun exact_match :: "string \<Rightarrow> bool" where
  "exact_match [] = False"
| "exact_match (c # s) = (exact_match_here (c # s) \<or> exact_match s)"

definition has_key :: "json \<Rightarrow> string \<Rightarrow> bool" where
  "has_key v k = (get_prop v k \<noteq> None)"

text \<open>
  The name search ``Ensure unique name''. The counter cannot pass the number of names in
  use, which bounds the recursion.
\<close>

fun unique_name :: "nat \<Rightarrow> (string \<Rightarrow> bool) \<Rightarrow> string \<Rightarrow> nat \<Rightarrow> string" where
  "unique_name 0 taken promotedName counter = promotedName @ dec_nat counter"
| "unique_name (Suc k) taken promotedName counter =
     (if taken (promotedName @ dec_nat counter)
      then unique_name k taken promotedName (Suc counter)
      else promotedName @ dec_nat counter)"

definition promoted_name :: "string \<Rightarrow> json \<Rightarrow> string option" where
  "promoted_name schemaName variant =
     or_else
       (if endsWith schemaName ''FilterProperty'' then
          (case str_prop variant ''title'' of
             Some title \<Rightarrow>
               if exact_match title
               then Some (take (length schemaName - length ''FilterProperty'') schemaName @ ''ExactMatch'')
               else None
           | None \<Rightarrow> None)
        else None)
       (case str_prop variant ''title'' of
          Some title \<Rightarrow>
            if filter (\<lambda>c. \<not> is_space c) title \<noteq> []
            then Some (schemaName @ filter (\<lambda>c. \<not> is_space c) title)
            else None
        | None \<Rightarrow> None)"

text \<open>
  One variant of a \<^verbatim>\<open>oneOf\<close>/\<^verbatim>\<open>anyOf\<close> list: the variant as it is left in place, and
  \<open>newSchemas\<close>. \<open>schemas\<close> is the schemas object, whose keys do not change in the loop.
\<close>

definition promote_variant ::
  "(string \<times> json) list \<Rightarrow> string \<Rightarrow> json list \<times> (string \<times> json) list \<Rightarrow> json
   \<Rightarrow> json list \<times> (string \<times> json) list" where
  "promote_variant schemas schemaName acc variant =
     (case acc of
        (done, newSchemas) \<Rightarrow>
          if \<not> is_object variant \<or> truthy_opt (get_prop variant ''$ref'')
          then (done @ [variant], newSchemas)
          else if \<not> (has_key variant ''properties'' \<or> has_key variant ''enum'' \<or> has_key variant ''allOf'')
          then (done @ [variant], newSchemas)
          else (case promoted_name schemaName variant of
                  None \<Rightarrow> (done @ [variant], newSchemas)
                | Some promotedName \<Rightarrow>
                    (let taken = (\<lambda>name. truthy_opt (map_of schemas name) \<or> truthy_opt (map_of newSchemas name));
                         finalName = (if taken promotedName
                                      then unique_name (length schemas + length newSchemas) taken promotedName 1
                                      else promotedName)
                     in (done @ [JObj [(''$ref'', JStr (component_ref finalName))]],
                         obj_set newSchemas finalName variant))))"

definition promote_key ::
  "(string \<times> json) list \<Rightarrow> string \<Rightarrow> json \<times> (string \<times> json) list \<Rightarrow> string
   \<Rightarrow> json \<times> (string \<times> json) list" where
  "promote_key schemas schemaName acc compositionKey =
     (case acc of
        (schema, newSchemas) \<Rightarrow>
          (case schema of
             JObj kvs \<Rightarrow>
               (case map_of kvs compositionKey of
                  Some (JArr variants) \<Rightarrow>
                    (case foldl (promote_variant schemas schemaName) ([], newSchemas) variants of
                       (variants', newSchemas') \<Rightarrow>
                         (JObj (obj_set kvs compositionKey (JArr variants')), newSchemas'))
                | _ \<Rightarrow> (schema, newSchemas))
           | _ \<Rightarrow> (schema, newSchemas)))"

definition promote_schema ::
  "(string \<times> json) list \<Rightarrow> (string \<times> json) list \<times> (string \<times> json) list \<Rightarrow> string \<times> json
   \<Rightarrow> (string \<times> json) list \<times> (string \<times> json) list" where
  "promote_schema schemas acc e =
     (case (acc, e) of
        ((done, newSchemas), (schemaName, schemaValue)) \<Rightarrow>
          (case foldl (promote_key schemas schemaName) (schemaValue, newSchemas) [''oneOf'', ''anyOf''] of
             (schemaValue', newSchemas') \<Rightarrow> (done @ [(schemaName, schemaValue')], newSchemas')))"

text \<open>promoteInlineSchemas on the schemas object, ending with \<^verbatim>\<open>Object.assign\<close>.\<close>

definition promoteInlineSchemas :: "json \<Rightarrow> json" where
  "promoteInlineSchemas schemas =
     (case schemas of
        JObj kvs \<Rightarrow>
          (case foldl (promote_schema kvs) ([], []) kvs of
             (kvs', newSchemas) \<Rightarrow> JObj (foldl (\<lambda>acc (k, v). obj_set acc k v) kvs' newSchemas))
      | _ \<Rightarrow> schemas)"

subsection \<open>Step 4: dereferencing the remaining path-local refs\<close>

text \<open>\<^verbatim>\<open>a ?? b\<close> on the two resolutions: \<open>b\<close> is evaluated only when \<open>a\<close> is null or undefined.\<close>

definition resolve_post_pre :: "json \<Rightarrow> json \<Rightarrow> string \<Rightarrow> error + json option" where
  "resolve_post_pre postNormSnapshot preNormSnapshot ref =
     (case resolveInternalRef postNormSnapshot ref of
        Inl e \<Rightarrow> Inl e
      | Inr (Some v) \<Rightarrow> if v = JNull then resolveInternalRef preNormSnapshot ref else Inr (Some v)
      | Inr None \<Rightarrow> resolveInternalRef preNormSnapshot ref)"

text \<open>
  What the loop body does to one child before pushing it: the child as it is left in its
  parent, and whether it was replaced.
\<close>

definition inline_child :: "json \<Rightarrow> json \<Rightarrow> json \<Rightarrow> (json \<times> nat) res" where
  "inline_child postNormSnapshot preNormSnapshot child =
     (case child of
        JObj kvs \<Rightarrow>
          (case str_prop child ''$ref'' of
             Some ref \<Rightarrow>
               if startsWith ref ''#/paths/'' then
                 (case resolve_post_pre postNormSnapshot preNormSnapshot ref of
                    Inl e \<Rightarrow> throw e
                  | Inr (Some resolved) \<Rightarrow> if truthy resolved then ok (resolved, 1) else ok (child, 0)
                  | Inr None \<Rightarrow> ok (child, 0))
               else ok (child, 0)
           | None \<Rightarrow> ok (child, 0))
      | _ \<Rightarrow> ok (child, 0))"

fun inline_all :: "json \<Rightarrow> json \<Rightarrow> json list \<Rightarrow> (json list \<times> nat) res" where
  "inline_all post pre [] = ok ([], 0)"
| "inline_all post pre (x # xs) =
     bind_res (inline_child post pre x)
       (\<lambda>(x', c). bind_res (inline_all post pre xs) (\<lambda>(xs', c'). ok (x' # xs', c + c')))"

text \<open>The stack is last in, first out: the children pushed by one object are walked from the last.\<close>

fun walk_from_last :: "(json \<Rightarrow> (json \<times> nat) res) \<Rightarrow> json list \<Rightarrow> (json list \<times> nat) res" where
  "walk_from_last f [] = ok ([], 0)"
| "walk_from_last f (x # xs) =
     bind_res (walk_from_last f xs)
       (\<lambda>(xs', c'). bind_res (f x) (\<lambda>(x', c). ok (x' # xs', c + c')))"

text \<open>
  One popped node and everything pushed below it: the node as it is left, and the
  number of replacements. A replaced child is pushed as the copy that replaced it.
\<close>

fun deref_walk :: "nat \<Rightarrow> json \<Rightarrow> json \<Rightarrow> json \<Rightarrow> (json \<times> nat) res" where
  "deref_walk 0 post pre node = None"
| "deref_walk (Suc fuel) post pre node =
     (case node of
        JArr xs \<Rightarrow>
          bind_res (inline_all post pre xs)
            (\<lambda>(xs', c). bind_res (walk_from_last (deref_walk fuel post pre) xs')
               (\<lambda>(xs'', c'). ok (JArr xs'', c + c')))
      | JObj kvs \<Rightarrow>
          bind_res (inline_all post pre (map snd kvs))
            (\<lambda>(vs', c). bind_res (walk_from_last (deref_walk fuel post pre) vs')
               (\<lambda>(vs'', c'). ok (JObj (zip (map fst kvs) vs''), c + c')))
      | _ \<Rightarrow> ok (node, 0))"

text \<open>
  The variable \<open>schemas\<close> holds the schemas object by identity. The pipeline state after
  step 3 is the document together with \<open>detached\<close>: the schemas object when it can no
  longer be reached at \<^verbatim>\<open>components.schemas\<close> of the document, else \<^const>\<open>None\<close>.
\<close>

definition get_schemas :: "json \<Rightarrow> json option \<Rightarrow> json" where
  "get_schemas bundled detached =
     (case detached of
        Some s \<Rightarrow> s
      | None \<Rightarrow> (case get_path bundled [''components'', ''schemas''] of Some s \<Rightarrow> s | None \<Rightarrow> JObj []))"

definition put_schemas :: "json \<Rightarrow> json option \<Rightarrow> json \<Rightarrow> json \<times> json option" where
  "put_schemas bundled detached s =
     (case detached of
        Some _ \<Rightarrow> (bundled, Some s)
      | None \<Rightarrow>
          (case bundled of
             JObj kvs \<Rightarrow>
               (case map_of kvs ''components'' of
                  Some (JObj cs) \<Rightarrow> (JObj (obj_set kvs ''components'' (JObj (obj_set cs ''schemas'' s))), None)
                | _ \<Rightarrow> (bundled, None))
           | _ \<Rightarrow> (bundled, None)))"

definition replaces :: "json \<Rightarrow> json \<Rightarrow> json \<Rightarrow> bool" where
  "replaces post pre v = (case inline_child post pre v of Some (Inr (v', c)) \<Rightarrow> c = 1 | _ \<Rightarrow> False)"

text \<open>A pass that replaces the components object or the schemas object detaches \<open>schemas\<close>.\<close>

definition detaches :: "json \<Rightarrow> json \<Rightarrow> json \<Rightarrow> bool" where
  "detaches post pre bundled =
     (case get_prop bundled ''components'' of
        Some c \<Rightarrow> replaces post pre c \<or>
                  (case get_prop c ''schemas'' of Some s \<Rightarrow> replaces post pre s | None \<Rightarrow> False)
      | None \<Rightarrow> False)"

text \<open>
  The loop \<^verbatim>\<open>for (let pass = 1; pass <= 20; pass++)\<close>, \<open>passes\<close> being the passes left. The
  result lists the number of replacements of every pass that ran.
\<close>

fun deref_loop ::
  "nat \<Rightarrow> nat \<Rightarrow> json \<Rightarrow> json \<Rightarrow> json \<times> json option \<times> nat list \<Rightarrow> (json \<times> json option \<times> nat list) res" where
  "deref_loop 0 fuel post pre s = ok s"
| "deref_loop (Suc passes) fuel post pre s =
     (case s of
        (bundled, detached, counts) \<Rightarrow>
          bind_res (deref_walk fuel post pre bundled)
            (\<lambda>(bundled', dereferenced).
               (let detached' = (case detached of
                                   Some d \<Rightarrow> Some d
                                 | None \<Rightarrow> if detaches post pre bundled
                                           then Some (get_schemas bundled None) else None)
                in if dereferenced = 0 then ok (bundled', detached', counts @ [dereferenced])
                   else deref_loop passes fuel post pre (bundled', detached', counts @ [dereferenced]))))"

subsection \<open>Step 4b: freshSignatureDedup\<close>

definition sig_entry :: "(json \<Rightarrow> string) \<Rightarrow> string \<times> json \<Rightarrow> (string \<times> string) list" where
  "sig_entry sig e =
     (case e of
        (name, schema) \<Rightarrow>
          if \<not> is_object schema then []
          else if truthy_opt (get_prop schema ''$ref'') then []
          else [(sig schema, name)])"

definition exactSigMap :: "json \<Rightarrow> (string \<times> string) list" where
  "exactSigMap schemas = concat (map (sig_entry canonicalStringify) (entries schemas))"

definition structSigMap :: "json \<Rightarrow> (string \<times> string) list" where
  "structSigMap schemas = concat (map (sig_entry structuralStringify) (entries schemas))"

definition isSchemaLike :: "json \<Rightarrow> bool" where
  "isSchemaLike obj =
     (has_key obj ''properties'' \<or> has_key obj ''enum'' \<or> has_key obj ''allOf'' \<or>
      has_key obj ''oneOf'' \<or> has_key obj ''anyOf'')"

definition match_name :: "json \<Rightarrow> json \<Rightarrow> string option" where
  "match_name schemas obj =
     (case (case map_get (exactSigMap schemas) (canonicalStringify obj) of
              Some name \<Rightarrow> if name \<noteq> [] then Some name else None
            | None \<Rightarrow> None) of
        Some name \<Rightarrow> Some name
      | None \<Rightarrow>
          (case map_get (structSigMap schemas) (structuralStringify obj) of
             Some name \<Rightarrow> if name \<noteq> [] then Some name else None
           | None \<Rightarrow> None))"

text \<open>
  The function \<^verbatim>\<open>walk\<close>. It is entered at \<^verbatim>\<open>bundled.paths\<close> only, and no component schema
  object lies below \<^verbatim>\<open>paths\<close> in a tree, so the test \<^verbatim>\<open>componentValues.has(node)\<close> never holds
  there.
\<close>

fun dedup_walk :: "json \<Rightarrow> json \<Rightarrow> json \<times> nat" where
  "dedup_walk schemas (JArr xs) =
     (let rs = map (dedup_walk schemas) xs
      in (JArr (map fst rs), sum_list (map snd rs)))"
| "dedup_walk schemas (JObj kvs) =
     (let rs = map (\<lambda>(k, v). (k, dedup_walk schemas v)) kvs;
          obj = JObj (map (\<lambda>(k, r). (k, fst r)) rs);
          replaced = sum_list (map (\<lambda>(k, r). snd r) rs)
      in if truthy_opt (get_prop obj ''$ref'') then (obj, replaced)
         else if \<not> isSchemaLike obj then (obj, replaced)
         else (case match_name schemas obj of
                 Some matchName \<Rightarrow> (JObj [(''$ref'', JStr (component_ref matchName))], Suc replaced)
               | None \<Rightarrow> (obj, replaced)))"
| "dedup_walk schemas v = (v, 0)"

definition freshSignatureDedup :: "json \<Rightarrow> json \<Rightarrow> json \<times> nat" where
  "freshSignatureDedup bundled schemas =
     (case bundled of
        JObj kvs \<Rightarrow>
          (case map_of kvs ''paths'' of
             Some paths \<Rightarrow>
               if is_object paths
               then (case dedup_walk schemas paths of
                       (paths', replaced) \<Rightarrow> (JObj (obj_set kvs ''paths'' paths'), replaced))
               else (bundled, 0)
           | None \<Rightarrow> (bundled, 0))
      | _ \<Rightarrow> (bundled, 0))"

text \<open>
  The loop \<^verbatim>\<open>for (let dedupPass = 1; dedupPass <= 10; dedupPass++)\<close>, with the counts of the
  passes that ran.
\<close>

fun dedup_loop :: "nat \<Rightarrow> json \<Rightarrow> json \<Rightarrow> nat list \<Rightarrow> json \<times> nat list" where
  "dedup_loop 0 bundled schemas counts = (bundled, counts)"
| "dedup_loop (Suc passes) bundled schemas counts =
     (case freshSignatureDedup bundled schemas of
        (bundled', count) \<Rightarrow>
          if count = 0 then (bundled', counts @ [count])
          else dedup_loop passes bundled' schemas (counts @ [count]))"

subsection \<open>bundle\<close>

record options =
  entryFile :: "string option"
  outputSpec :: "string option"
  outputMetadata :: "string option"
  optManualOverrides :: "(string \<times> string) list"
  dereferencePathLocalRefs :: bool
  allowPathLocalLikeRefs :: bool

text \<open>
  What bundle takes from its collaborators: the spec directory on disk,
  \<^verbatim>\<open>SwaggerParser.bundle\<close> (by entry path), \<^verbatim>\<open>parseYaml\<close> (\<^const>\<open>None\<close> when it throws), the digest
  function, and extractMetadata of metadata.ts (which throws on some documents).
\<close>

record 'm env =
  specDir :: string
  specTree :: fsnode
  swaggerBundle :: "string \<Rightarrow> error + json"
  parseYaml :: "string \<Rightarrow> json option"
  digest :: "string \<Rightarrow> string"
  extractMetadata :: "json \<Rightarrow> json \<Rightarrow> string \<Rightarrow> error + 'm"

record bundle_stats =
  pathCount :: nat
  schemaCount :: nat
  augmentedSchemaCount :: nat
  promotedInlineSchemaCount :: nat
  freshDedupCount :: nat
  dereferencedPathLocalRefCount :: nat
  pathLocalLikeRefCount :: nat

record 'm bundle_result =
  spec :: json
  metadata :: 'm
  stats :: bundle_stats

text \<open>A file written by \<^verbatim>\<open>writeFileSync\<close>: its path and the value that is serialized into it.\<close>

datatype 'm written = SpecFile string json | MetadataFile string 'm

record 'm outcome =
  files_written :: "'m written list"
  returned :: "error + 'm bundle_result"

definition DEFAULT_MANUAL_OVERRIDES :: "(string \<times> string) list" where
  "DEFAULT_MANUAL_OVERRIDES =
     [(''#/paths/~1process-instances~1search/post/requestBody/content/application~1json/schema/properties/filter/allOf/0'',
       ''ProcessInstanceFilter''),
      (''#/paths/~1process-definitions~1%7BprocessDefinitionKey%7D~1statistics~1element-instances/post/requestBody/content/application~1json/schema/properties/filter/allOf/0/allOf/0'',
       ''BaseProcessInstanceFilterFields'')]"

definition failed :: "error \<Rightarrow> 'm outcome" where
  "failed e = \<lparr>files_written = [], returned = Inl e\<rparr>"

definition like_refs_message :: "nat \<Rightarrow> string" where
  "like_refs_message n =
     dec_nat n @ '' path-local $like ref(s) survived normalization. '' @
     ''This will cause generator failures. Set allowPathLocalLikeRefs to bypass.''"

definition is_cleared :: "nstate \<Rightarrow> node_id \<Rightarrow> bool" where
  "is_cleared st n = (case map_of (muts st) n of Some (Cleared r) \<Rightarrow> True | _ \<Rightarrow> False)"

text \<open>Steps 1 and 2: the merged document with the schemas of all files, and their number.\<close>

definition load_document :: "'m env \<Rightarrow> string \<Rightarrow> error + json \<times> nat" where
  "load_document e entryPath =
     (case swaggerBundle e entryPath of
        Inl err \<Rightarrow> Inl err
      | Inr raw \<Rightarrow>
          (case ensureComponents raw of
             Inl err \<Rightarrow> Inl err
           | Inr bundled \<Rightarrow>
               (case get_schemas bundled None of
                  JObj schemas \<Rightarrow>
                    (case foldl augment_file (schemas, 0)
                            (map (\<lambda>file. (file, parseYaml e (readFileSync (specDir e) (specTree e) file)))
                                 (listFilesRecursive (specDir e) (specTree e))) of
                       (schemas', augmented) \<Rightarrow>
                         Inr (fst (put_schemas bundled None (JObj schemas')), augmented))
                | _ \<Rightarrow> Inl TypeError)))"

text \<open>The constants of step 3, from the document as it is before normalization.\<close>

definition norm_ctx :: "options \<Rightarrow> json \<Rightarrow> nctx" where
  "norm_ctx opts bundled =
     \<lparr>doc0 = bundled,
      componentNames = map fst (entries (get_schemas bundled None)),
      manualOverrides = optManualOverrides opts @ DEFAULT_MANUAL_OVERRIDES,
      schemaSignatureMap = map (\<lambda>(name, schema). (canonicalStringify schema, name))
                               (entries (get_schemas bundled None))\<rparr>"

text \<open>
  Step 3 with \<^verbatim>\<open>rewriteInternalRefs(bundled)\<close>: the document, the schemas object if detached,
  and preNormSnapshot as safeNormalize leaves it.
\<close>

definition normalize :: "nat \<Rightarrow> options \<Rightarrow> json \<Rightarrow> (json \<times> json option \<times> json) res" where
  "normalize fuel opts bundled =
     bind_res (safeNormalize fuel (norm_ctx opts bundled) (Live, []) \<lparr>muts = [], normSeen = []\<rparr>)
       (\<lambda>st. case (node_now (norm_ctx opts bundled) st (Live, []),
                    node_now (norm_ctx opts bundled) st schemas_id,
                    node_now (norm_ctx opts bundled) st (Snap, [])) of
               (Some live, Some schemas, Some preNormSnapshot) \<Rightarrow>
                 ok (rewriteInternalRefs live,
                     (if is_cleared st (Live, []) \<or> is_cleared st (Live, [''components''])
                      then Some schemas else None),
                     preNormSnapshot)
             | _ \<Rightarrow> throw TypeError)"

text \<open>Steps 3b, 4 and 4b: the document, the schemas object, and the counts for the statistics.\<close>

definition transform ::
  "nat \<Rightarrow> nat \<Rightarrow> options \<Rightarrow> json \<Rightarrow> (json \<times> json \<times> nat \<times> nat list \<times> nat list) res" where
  "transform nfuel dfuel opts bundled0 =
     bind_res (normalize nfuel opts bundled0)
       (\<lambda>(bundled1, detached1, preNormSnapshot).
          (let schemas1 = get_schemas bundled1 detached1;
               schemas2 = promoteInlineSchemas schemas1;
               promoted = length (entries schemas2) - length (entries schemas1);
               bundled2 = fst (put_schemas bundled1 detached1 schemas2);
               postNormSnapshot = bundled2
           in bind_res (if dereferencePathLocalRefs opts
                        then deref_loop 20 dfuel postNormSnapshot preNormSnapshot (bundled2, detached1, [])
                        else ok (bundled2, detached1, []))
                (\<lambda>(bundled3, detached3, derefCounts).
                   (let schemas3 = get_schemas bundled3 detached3
                    in case dedup_loop 10 bundled3 schemas3 [] of
                         (bundled4, dedupCounts) \<Rightarrow>
                           ok (bundled4, schemas3, promoted, derefCounts, dedupCounts)))))"

definition entry_path :: "'m env \<Rightarrow> options \<Rightarrow> string" where
  "entry_path e opts =
     path_join (specDir e) (case entryFile opts of Some f \<Rightarrow> f | None \<Rightarrow> ''rest-api.yaml'')"

text \<open>
  The function \<^verbatim>\<open>bundle\<close> (the name is an Isabelle keyword). \<open>nfuel\<close> bounds the nesting of
  safeNormalize and \<open>dfuel\<close> the depth reached by a dereferencing pass; the result is
  \<^const>\<open>None\<close> when one of them does not suffice.
\<close>

definition bundle_run :: "nat \<Rightarrow> nat \<Rightarrow> 'm env \<Rightarrow> options \<Rightarrow> 'm outcome option" where
  "bundle_run nfuel dfuel e opts =
     (let entryPath = entry_path e opts
      in if entryPath \<notin> set (listFilesRecursive (specDir e) (specTree e))
         then Some (failed (Error (''Spec entry not found at '' @ entryPath @
                                   ''. Ensure the upstream spec has been fetched.'')))
         else
           (case load_document e entryPath of
              Inl err \<Rightarrow> Some (failed err)
            | Inr (bundled0, augmented) \<Rightarrow>
                (case transform nfuel dfuel opts bundled0 of
                   None \<Rightarrow> None
                 | Some (Inl err) \<Rightarrow> Some (failed err)
                 | Some (Inr (bundled, schemas, promoted, derefCounts, dedupCounts)) \<Rightarrow>
                     (let likeRefs = findPathLocalLikeRefs bundled
                      in if 0 < likeRefs \<and> \<not> allowPathLocalLikeRefs opts
                         then Some (failed (Error (like_refs_message likeRefs)))
                         else
                           (let st = \<lparr>pathCount = (case get_prop bundled ''paths'' of
                                                     Some paths \<Rightarrow> if truthy paths then length (entries paths) else 0
                                                   | None \<Rightarrow> 0),
                                      schemaCount = length (entries schemas),
                                      augmentedSchemaCount = augmented,
                                      promotedInlineSchemaCount = promoted,
                                      freshDedupCount = sum_list dedupCounts,
                                      dereferencedPathLocalRefCount = sum_list derefCounts,
                                      pathLocalLikeRefCount = likeRefs\<rparr>
                            in case extractMetadata e bundled schemas
                                      (hashDirectoryTree (digest e) (specDir e) (specTree e)) of
                                 Inl err \<Rightarrow> Some (failed err)
                               | Inr md \<Rightarrow>
                                   Some \<lparr>files_written =
                                           (case outputSpec opts of
                                              Some f \<Rightarrow> if f \<noteq> [] then [SpecFile f bundled] else []
                                            | None \<Rightarrow> []) @
                                           (case outputMetadata opts of
                                              Some f \<Rightarrow> if f \<noteq> [] then [MetadataFile f md] else []
                                            | None \<Rightarrow> []),
                                         returned = Inr \<lparr>spec = bundled, metadata = md, stats = st\<rparr>\<rparr>)))))"

section \<open>Properties of documents\<close>




section \<open>Example runs\<close>

text \<open>
  Collaborators for a run on one in-memory document: the entry file exists, no other
  file carries schemas, the digest and the metadata are trivial.
\<close>

definition env_of :: "json \<Rightarrow> unit env" where
  "env_of d =
     \<lparr>specDir = ''/spec'', specTree = Dir [(''rest-api.yaml'', File [])],
      swaggerBundle = (\<lambda>p. Inr d), parseYaml = (\<lambda>c. None), digest = (\<lambda>b. b),
      extractMetadata = (\<lambda>b s h. Inr ())\<rparr>"

definition default_options :: options where
  "default_options =
     \<lparr>entryFile = None, outputSpec = Some ''out/spec.json'', outputMetadata = Some ''out/meta.json'',
      optManualOverrides = [], dereferencePathLocalRefs = False, allowPathLocalLikeRefs = False\<rparr>"



text \<open>A pointer into the operations subtree whose target contains the pointer itself.\<close>

definition cyclic_doc :: json where
  "cyclic_doc =
     JObj [(''components'', JObj [(''schemas'', JObj [])]),
           (''paths'', JObj [(''/a'', JObj [(''x'', JObj [(''$ref'', JStr ''#/paths/~1a'')])])])]"

text \<open>
  An inline schema under \<^verbatim>\<open>/x\<close> equal to the component \<open>Foo\<close> once its property is
  normalized, a pointer to that schema under \<^verbatim>\<open>/y\<close>, and a pointer into it under \<^verbatim>\<open>/z\<close>.
\<close>

definition snapshot_doc :: json where
  "snapshot_doc =
     JObj [(''paths'', JObj
             [(''/x'', JObj [(''get'', JObj [(''schema'',
                 JObj [(''type'', JStr ''object''),
                       (''properties'', JObj [(''a'', JObj [(''type'', JStr ''integer'')])])])])]),
              (''/y'', JObj [(''get'', JObj [(''schema'',
                 JObj [(''$ref'', JStr ''#/paths/~1x/get/schema'')])])]),
              (''/z'', JObj [(''get'', JObj [(''schema'',
                 JObj [(''$ref'', JStr ''#/paths/~1x/get/schema/properties/a'')])])])]),
           (''components'', JObj [(''schemas'', JObj
             [(''Foo'', JObj [(''type'', JStr ''object''),
                              (''properties'', JObj [(''a'', JObj [(''$ref'', JStr ''#/components/schemas/Int'')])])]),
              (''Int'', JObj [(''type'', JStr ''integer'')])])])]"

section \<open>The decision for a transient pointer, as specified\<close>










section \<open>Stable references\<close>

text \<open>The object \<open>m\<close> carries, as it is now, a \<^verbatim>\<open>$ref\<close> into the component schemas.\<close>

definition stable_ref_node :: "nctx \<Rightarrow> nstate \<Rightarrow> node_id \<Rightarrow> bool" where
  "stable_ref_node ctx st m =
     (case node_now ctx st m of
        Some (JObj kvs) \<Rightarrow>
          (case map_of kvs ''$ref'' of
             Some (JStr r) \<Rightarrow> startsWith r ''#/components/schemas/''
           | _ \<Rightarrow> False)
      | _ \<Rightarrow> False)"




section \<open>Pointer decoding\<close>

lemma includes_char: "includes_str s [c] \<longleftrightarrow> c \<in> set s"
  by (induction s) (auto simp: startsWith_def)

lemma hexval_hexdigit: "n < 16 \<Longrightarrow> hexval (hexdigit n) = Some n"
  by (auto simp: hexval_def hexdigit_def Let_def)

lemma unreserved_not_pct: "unreserved c \<Longrightarrow> c \<noteq> CHR ''%''"
  by (auto simp: unreserved_def Let_def)

lemma of_char_div16: "(of_char c :: nat) div 16 < 16"
proof -
  have "(of_char c :: nat) < 16 * 16" by simp
  then show ?thesis by (rule less_mult_imp_div_less)
qed

lemma pct_tokens_encode:
  "pct_tokens (encodeURIComponent s)
   = Some (map (\<lambda>c. if unreserved c then Lit c else Oct (of_char c)) s)"
  by (induction s) (auto simp: unreserved_not_pct hexval_hexdigit of_char_div16)

lemma utf8_join_ascii:
  "\<forall>c\<in>set s. (of_char c :: nat) < 128 \<Longrightarrow>
   utf8_join (map (\<lambda>c. if unreserved c then Lit c else Oct (of_char c)) s) = Some s"
  by (induction s) auto

lemma decode_encode:
  "\<forall>c\<in>set s. (of_char c :: nat) < 128 \<Longrightarrow> decodeURIComponent (encodeURIComponent s) = Some s"
  by (simp add: decodeURIComponent_def pct_tokens_encode utf8_join_ascii)

lemma encode_no_pct: "CHR ''%'' \<notin> set (encodeURIComponent s) \<Longrightarrow> encodeURIComponent s = s"
  by (induction s) (auto split: if_splits)

text \<open>
  Claim C8, as stated: normalizeInternalRef is idempotent on every ref string. It is not:
  the double-encoded pointer of the repository's own test loses one level per call.
\<close>

theorem normalizeInternalRef_not_idempotent:
  "normalizeInternalRef (normalizeInternalRef ''#/paths/%257Bid%257D'')
   \<noteq> normalizeInternalRef ''#/paths/%257Bid%257D''"
proof -
  have "normalizeInternalRef ''#/paths/%257Bid%257D'' = ''#/paths/%7Bid%7D''"
    by code_simp
  moreover have "normalizeInternalRef ''#/paths/%7Bid%7D'' = ''#/paths/{id}''"
    by code_simp
  ultimately show ?thesis by simp
qed

text \<open>
  Claim C8, amended: a pointer without a percent sign is returned unchanged, so a second
  call is a no-op whenever the first result has no percent sign left; and one call removes
  exactly one level of percent-encoding: for an ASCII string \<open>s\<close>, decoding the encoded
  pointer gives back \<open>s\<close> (which may itself still be encoded).
\<close>

theorem normalizeInternalRef_one_level:
  "(\<not> includes_str r ''%'' \<longrightarrow> normalizeInternalRef r = r) \<and>
   (\<not> includes_str (normalizeInternalRef r) ''%'' \<longrightarrow>
      normalizeInternalRef (normalizeInternalRef r) = normalizeInternalRef r) \<and>
   ((\<forall>c\<in>set s. (of_char c :: nat) < 128) \<longrightarrow>
      normalizeInternalRef (''#'' @ encodeURIComponent s) = ''#'' @ s)"
proof (intro conjI impI)
  show "normalizeInternalRef r = r" if "\<not> includes_str r ''%''" for r
    using that by (simp add: normalizeInternalRef_def)
  then show "normalizeInternalRef (normalizeInternalRef r) = normalizeInternalRef r"
    if "\<not> includes_str (normalizeInternalRef r) ''%''"
    using that by blast
  show "normalizeInternalRef (''#'' @ encodeURIComponent s) = ''#'' @ s"
    if a: "\<forall>c\<in>set s. (of_char c :: nat) < 128"
  proof (cases "CHR ''%'' \<in> set (encodeURIComponent s)")
    case True
    then show ?thesis
      using decode_encode [OF a]
      by (simp add: normalizeInternalRef_def includes_char startsWith_def)
  next
    case False
    then show ?thesis
      using encode_no_pct [OF False]
      by (simp add: normalizeInternalRef_def includes_char startsWith_def)
  qed
qed

theorem normalizeInternalRef_one_level_witness:
  "\<not> includes_str ''#/components/schemas/Foo'' ''%'' \<and>
   normalizeInternalRef ''#/components/schemas/Foo'' = ''#/components/schemas/Foo'' \<and>
   \<not> includes_str (normalizeInternalRef ''#/paths/foo/%24like'') ''%'' \<and>
   normalizeInternalRef (normalizeInternalRef ''#/paths/foo/%24like'') = ''#/paths/foo/$like'' \<and>
   list_all (\<lambda>c. (of_char c :: nat) < 128) ''%7Bid%7D'' \<and>
   encodeURIComponent ''%7Bid%7D'' = ''%257Bid%257D'' \<and>
   normalizeInternalRef (''#'' @ encodeURIComponent ''%7Bid%7D'') = ''#%7Bid%7D''"
proof -
  have a: "\<not> includes_str ''#/components/schemas/Foo'' ''%''" by code_simp
  have b: "normalizeInternalRef ''#/paths/foo/%24like'' = ''#/paths/foo/$like''" by code_simp
  have c: "\<not> includes_str ''#/paths/foo/$like'' ''%''" by code_simp
  have d: "list_all (\<lambda>c. (of_char c :: nat) < 128) ''%7Bid%7D''" by simp
  have e: "encodeURIComponent ''%7Bid%7D'' = ''%257Bid%257D''" by code_simp
  show ?thesis
    using normalizeInternalRef_one_level [of "''#/components/schemas/Foo''" "''%7Bid%7D''"]
          normalizeInternalRef_one_level [of "''#/paths/foo/%24like''" "''%7Bid%7D''"] a b c d e
    by (simp add: list_all_iff)
qed

section \<open>Pointer resolution\<close>

text \<open>
  Claim C9: resolveInternalRef never throws. The code decodes every segment with
  decodeURIComponent outside any try block, so a malformed escape raises URIError: on the
  empty root object and the pointer \<^verbatim>\<open>#/%\<close> the result is the exception, not
  \<^verbatim>\<open>undefined\<close>.
\<close>

theorem resolveInternalRef_throws_on_malformed_escape:
  "resolveInternalRef (JObj []) ''#/%'' = Inl URIError"
  by code_simp

section \<open>Directory hashing\<close>

lemma append_le_append: "(pre @ x \<le> pre @ (y :: string)) \<longleftrightarrow> x \<le> y"
  by (induction pre) auto

lemma insort_map_embed:
  assumes "\<And>a b. (f a \<le> f b) \<longleftrightarrow> (a \<le> (b :: string))"
  shows "insort (f x :: string) (map f ys) = map f (insort x ys)"
  by (induction ys) (auto simp: assms)

lemma sort_map_embed:
  assumes "\<And>a b. (f a \<le> f b) \<longleftrightarrow> (a \<le> (b :: string))"
  shows "sort (map f xs) = map (f :: string \<Rightarrow> string) (sort xs)"
  by (induction xs) (auto simp: insort_map_embed [OF assms])

lemma files_in_prefix: "(p, c) \<in> set (files_in cur es) \<Longrightarrow> prefix (cur @ ''/'') p"
  by (auto simp: files_in_def path_join_def split: fsnode.splits)

lemma subdirs_prefix:
  "(d, es') \<in> set (subdirs cur es) \<Longrightarrow> prefix (d @ ''/'') p \<Longrightarrow> prefix (cur @ ''/'') p"
  by (auto simp: subdirs_def path_join_def prefix_def split: fsnode.splits)

lemma list_loop_prefix:
  "(p, c) \<in> set (list_loop stack out) \<Longrightarrow>
   (p, c) \<in> set out \<or> (\<exists>(cur, es) \<in> set stack. prefix (cur @ ''/'') p)"
proof (induction stack out rule: list_loop.induct)
  case (1 out)
  then show ?case by simp
next
  case (2 cur es stack out)
  from 2 have "(p, c) \<in> set (out @ files_in cur es) \<or>
     (\<exists>(cur', es') \<in> set (rev (subdirs cur es) @ stack). prefix (cur' @ ''/'') p)"
    by simp
  then consider "(p, c) \<in> set out" | "(p, c) \<in> set (files_in cur es)"
    | d es' where "(d, es') \<in> set (subdirs cur es)" "prefix (d @ ''/'') p"
    | "\<exists>(cur', es') \<in> set stack. prefix (cur' @ ''/'') p"
    by auto
  then show ?case
  proof cases
    case 1 then show ?thesis by simp
  next
    case 2 then show ?thesis using files_in_prefix by simp
  next
    case 3 then show ?thesis using subdirs_prefix by simp
  next
    case 4 then show ?thesis by simp
  qed
qed

lemma walk_files_prefix:
  assumes "(p, c) \<in> set (walk_files dir tree)"
  shows "p = dir @ ''/'' @ path_relative dir p"
proof -
  obtain es where "(p, c) \<in> set (list_loop [(dir, es)] [])"
    using assms by (auto simp: walk_files_def split: fsnode.splits)
  from list_loop_prefix [OF this] have "prefix (dir @ ''/'') p" by simp
  then show ?thesis
    by (auto simp: prefix_def path_relative_def)
qed

lemma walk_files_rel:
  "walk_files dir tree = map (\<lambda>(x, c). (dir @ ''/'' @ x, c)) (rel_files dir tree)"
proof -
  have "map (\<lambda>(x, c). (dir @ ''/'' @ x, c)) (rel_files dir tree)
        = map (\<lambda>(p, c). (dir @ ''/'' @ path_relative dir p, c)) (walk_files dir tree)"
    by (simp add: rel_files_def case_prod_unfold comp_def)
  also have "\<dots> = map (\<lambda>(p, c). (p, c)) (walk_files dir tree)"
    by (rule map_cong) (auto dest: walk_files_prefix)
  finally show ?thesis by simp
qed

lemma map_of_embed:
  "inj f \<Longrightarrow> map_of (map (\<lambda>(x, c). (f x, c)) xs) (f k) = map_of xs k"
  by (induction xs) (auto dest: injD)

lemma hash_fed_bytes: "hashDirectoryTree sha256 dir tree = ''sha256:'' @ sha256 (fed_bytes (rel_files dir tree))"
proof -
  let ?f = "\<lambda>x. dir @ ''/'' @ x"
  let ?R = "rel_files dir tree"
  have inj: "inj ?f" by (auto simp: inj_def)
  have w: "walk_files dir tree = map (\<lambda>(x, c). (?f x, c)) ?R" by (rule walk_files_rel)
  have l: "listFilesRecursive dir tree = map ?f (sort (map fst ?R))"
  proof -
    have "map fst (walk_files dir tree) = map ?f (map fst ?R)"
      by (subst w) (simp add: case_prod_unfold comp_def)
    then show ?thesis
      unfolding listFilesRecursive_def
      using sort_map_embed [of ?f "map fst ?R"] append_le_append [of "dir @ ''/''"]
      by simp
  qed
  have "readFileSync dir tree (?f x) = (case map_of ?R x of Some c \<Rightarrow> c | None \<Rightarrow> [])" for x
    unfolding readFileSync_def
    by (subst w) (simp only: map_of_embed [OF inj])
  then have r: "readFileSync dir tree (dir @ CHR ''/'' # x)
                = (case map_of ?R x of Some c \<Rightarrow> c | None \<Rightarrow> [])" for x
    by simp
  have p: "path_relative dir (dir @ CHR ''/'' # x) = x" for x
    by (simp add: path_relative_def)
  show ?thesis
    unfolding hashDirectoryTree_def l fed_bytes_def
    by (simp add: comp_def r p del: append_assoc)
qed

lemma fed_bytes_cong:
  assumes "distinct (map fst xs)" "distinct (map fst ys)" "set xs = set ys"
  shows "fed_bytes xs = fed_bytes ys"
proof -
  have m: "map_of xs = map_of ys"
    using assms by (simp add: map_of_inject_set)
  have "set (map fst xs) = set (map fst ys)" using assms by simp
  then have "sort (map fst xs) = sort (map fst ys)"
    using assms(1,2) by (intro sorted_distinct_set_unique) auto
  with m show ?thesis by (simp add: fed_bytes_def)
qed

lemma rel_files_distinct:
  assumes "distinct (map fst (walk_files dir tree))"
  shows "distinct (map fst (rel_files dir tree))"
proof -
  have "map fst (walk_files dir tree) = map (\<lambda>x. dir @ ''/'' @ x) (map fst (rel_files dir tree))"
    by (subst walk_files_rel) (simp add: case_prod_unfold comp_def)
  with assms show ?thesis by (metis distinct_map)
qed

text \<open>
  Claim C10: hashDirectoryTree does not depend on the order in which the file system
  enumerates directory entries. Two directories (with any roots and any enumeration
  orders) that hold the same pairs of relative path and content, each file path listed
  once, have the same hash; in particular the hash of one directory is the same on every
  run.
\<close>

theorem hashDirectoryTree_deterministic:
  assumes "distinct (map fst (walk_files d1 t1))"
    and "distinct (map fst (walk_files d2 t2))"
    and "set (rel_files d1 t1) = set (rel_files d2 t2)"
  shows "hashDirectoryTree sha256 d1 t1 = hashDirectoryTree sha256 d2 t2"
  using fed_bytes_cong [OF rel_files_distinct [OF assms(1)] rel_files_distinct [OF assms(2)] assms(3)]
  by (simp add: hash_fed_bytes)

theorem hashDirectoryTree_deterministic_witness:
  "\<forall>sha256.
     hashDirectoryTree sha256 ''/spec''
       (Dir [(''b.yaml'', File ''B''), (''sub'', Dir [(''z.yaml'', File ''Z''), (''a.yaml'', File ''A'')]),
             (''a.yaml'', File ''A0'')])
     = hashDirectoryTree sha256 ''/tmp/copy''
       (Dir [(''a.yaml'', File ''A0''), (''sub'', Dir [(''a.yaml'', File ''A''), (''z.yaml'', File ''Z'')]),
             (''b.yaml'', File ''B'')])"
proof
  fix sha256 :: "string \<Rightarrow> string"
  let ?t1 = "Dir [(''b.yaml'', File ''B''), (''sub'', Dir [(''z.yaml'', File ''Z''), (''a.yaml'', File ''A'')]),
             (''a.yaml'', File ''A0'')]"
  let ?t2 = "Dir [(''a.yaml'', File ''A0''), (''sub'', Dir [(''a.yaml'', File ''A''), (''z.yaml'', File ''Z'')]),
             (''b.yaml'', File ''B'')]"
  have w1: "walk_files ''/spec'' ?t1
            = [(''/spec/b.yaml'', ''B''), (''/spec/a.yaml'', ''A0''), (''/spec/sub/z.yaml'', ''Z''),
               (''/spec/sub/a.yaml'', ''A'')]"
    by code_simp
  have w2: "walk_files ''/tmp/copy'' ?t2
            = [(''/tmp/copy/a.yaml'', ''A0''), (''/tmp/copy/b.yaml'', ''B''),
               (''/tmp/copy/sub/a.yaml'', ''A''), (''/tmp/copy/sub/z.yaml'', ''Z'')]"
    by code_simp
  have d1: "distinct (map fst (walk_files ''/spec'' ?t1))" unfolding w1 by simp
  have d2: "distinct (map fst (walk_files ''/tmp/copy'' ?t2))" unfolding w2 by simp
  have s: "set (rel_files ''/spec'' ?t1) = set (rel_files ''/tmp/copy'' ?t2)"
    unfolding rel_files_def w1 w2 by (auto simp: path_relative_def)
  show "hashDirectoryTree sha256 ''/spec'' ?t1 = hashDirectoryTree sha256 ''/tmp/copy'' ?t2"
    by (rule hashDirectoryTree_deterministic [OF d1 d2 s])
qed

section \<open>Validation\<close>







section \<open>Budgets of the loops\<close>

lemma cyclic_node_never_returns:
  "deref_walk f cyclic_doc cyclic_doc (JObj [(''x'', JObj [(''$ref'', JStr ''#/paths/~1a'')])]) = None"
proof (induction f)
  case 0
  then show ?case by simp
next
  case (Suc f)
  have r: "inline_child cyclic_doc cyclic_doc (JObj [(''$ref'', JStr ''#/paths/~1a'')])
           = ok (JObj [(''x'', JObj [(''$ref'', JStr ''#/paths/~1a'')])], 1)"
    by code_simp
  show ?case
    using Suc by (simp add: r bind_res_def ok_def)
qed

lemma cyclic_doc_never_returns: "deref_walk f cyclic_doc cyclic_doc cyclic_doc = None"
proof -
  let ?n = "JObj [(''x'', JObj [(''$ref'', JStr ''#/paths/~1a'')])]"
  have a: "deref_walk f cyclic_doc cyclic_doc (JObj [(''/a'', ?n)]) = None" for f
  proof (cases f)
    case 0
    then show ?thesis by simp
  next
    case (Suc g)
    have "inline_child cyclic_doc cyclic_doc ?n = ok (?n, 0)" by code_simp
    then show ?thesis
      using Suc cyclic_node_never_returns [of g] by (simp add: bind_res_def ok_def)
  qed
  show ?thesis
  proof (cases f)
    case 0
    then show ?thesis by simp
  next
    case (Suc g)
    have 1: "inline_child cyclic_doc cyclic_doc (JObj [(''schemas'', JObj [])])
             = ok (JObj [(''schemas'', JObj [])], 0)"
      by code_simp
    have 2: "inline_child cyclic_doc cyclic_doc (JObj [(''/a'', ?n)]) = ok (JObj [(''/a'', ?n)], 0)"
      by code_simp
    have eq: "JObj [(''components'', JObj [(''schemas'', JObj [])]), (''paths'', JObj [(''/a'', ?n)])]
              = cyclic_doc"
      by (simp add: cyclic_doc_def)
    have "deref_walk (Suc g) cyclic_doc cyclic_doc
            (JObj [(''components'', JObj [(''schemas'', JObj [])]), (''paths'', JObj [(''/a'', ?n)])])
          = None"
      using a [of g] 1 2 by (simp add: bind_res_def ok_def)
    then show ?thesis
      unfolding eq Suc .
  qed
qed

text \<open>
  Claim C6: both loops always terminate. The dereferencing pass does not on a document
  with a pointer into the operations subtree whose target contains the pointer: every
  copy it inlines is pushed and holds the pointer again, so the first of the twenty passes
  never ends, whatever depth is allowed.
\<close>

theorem dereferencing_pass_never_ends:
  "bundle_run 20 dfuel (env_of cyclic_doc) (default_options\<lparr>dereferencePathLocalRefs := True\<rparr>) = None"
proof -
  let ?opts = "default_options\<lparr>dereferencePathLocalRefs := True\<rparr>"
  have e: "entry_path (env_of cyclic_doc) ?opts
           \<in> set (listFilesRecursive (specDir (env_of cyclic_doc)) (specTree (env_of cyclic_doc)))"
    by code_simp
  have l: "load_document (env_of cyclic_doc) (entry_path (env_of cyclic_doc) ?opts) = Inr (cyclic_doc, 0)"
    by code_simp
  have n: "normalize 20 ?opts cyclic_doc = Some (Inr (cyclic_doc, None, cyclic_doc))"
    by code_simp
  have s: "get_schemas cyclic_doc None = JObj []" by code_simp
  have p: "promoteInlineSchemas (JObj []) = JObj []" by code_simp
  have q: "put_schemas cyclic_doc None (JObj []) = (cyclic_doc, None)" by code_simp
  have d: "dereferencePathLocalRefs ?opts" by simp
  have "deref_loop 20 dfuel cyclic_doc cyclic_doc (cyclic_doc, None, []) = None"
    using cyclic_doc_never_returns [of dfuel]
    by (simp add: eval_nat_numeral bind_res_def)
  then have "transform 20 dfuel ?opts cyclic_doc = None"
    unfolding transform_def n
    by (simp add: bind_res_def s p q d Let_def del: deref_loop.simps)
  then show ?thesis
    unfolding bundle_run_def Let_def using e l by simp
qed

section \<open>The snapshot\<close>

text \<open>
  Claim C3: transient pointers are resolved against a snapshot that stays as it was
  before normalization. safeNormalize is called on the object a pointer resolves to,
  which is an object of the snapshot, and rewrites it in place. On \<open>snapshot_doc\<close> the
  pointer under \<^verbatim>\<open>/y\<close> makes the snapshot's schema under \<^verbatim>\<open>/x\<close> a reference to \<open>Foo\<close>; the
  pointer under \<^verbatim>\<open>/z\<close>, visited next, no longer resolves and is left in the document,
  although its target in the tree before normalization is the integer schema, which has
  the signature of \<open>Int\<close>.
\<close>

theorem snapshot_mutated_by_normalize:
  "get_path snapshot_doc [''paths'', ''/x'', ''get'', ''schema'']
   = Some (JObj [(''type'', JStr ''object''),
                 (''properties'', JObj [(''a'', JObj [(''type'', JStr ''integer'')])])]) \<and>
   resolveInternalRef snapshot_doc ''#/paths/~1x/get/schema/properties/a''
   = Inr (Some (JObj [(''type'', JStr ''integer'')])) \<and>
   canonicalStringify (JObj [(''type'', JStr ''integer'')])
   = canonicalStringify (the (get_path snapshot_doc [''components'', ''schemas'', ''Int''])) \<and>
   (case normalize 20 default_options snapshot_doc of
      Some (Inr (live, detached, preNormSnapshot)) \<Rightarrow>
        (get_path preNormSnapshot [''paths'', ''/x'', ''get'', ''schema''],
         resolveInternalRef preNormSnapshot ''#/paths/~1x/get/schema/properties/a'',
         get_path live [''paths'', ''/y'', ''get'', ''schema''],
         get_path live [''paths'', ''/z'', ''get'', ''schema''])
    | _ \<Rightarrow> (None, Inr None, None, None))
   = (Some (JObj [(''$ref'', JStr ''#/components/schemas/Foo'')]),
      Inr None,
      Some (JObj [(''$ref'', JStr ''#/components/schemas/Foo'')]),
      Some (JObj [(''$ref'', JStr ''#/paths/~1x/get/schema/properties/a'')]))"
  by code_simp

section \<open>The normalizer\<close>





















subsection \<open>What safeNormalize leaves untouched\<close>

lemma node_now_seen [simp]: "node_now ctx (st\<lparr>normSeen := x\<rparr>) m = node_now ctx st m"
  by (simp add: node_now_def)

lemma stable_seen [simp]: "stable_ref_node ctx (st\<lparr>normSeen := x\<rparr>) m = stable_ref_node ctx st m"
  by (simp add: stable_ref_node_def)



lemma view_obj_unmutated:
  "m (t, p) = None \<Longrightarrow> view m t p (JObj kvs0) = JObj (view_props m t p kvs0)"
  by simp


























subsection \<open>What the dedup passes leave untouched\<close>













end
